theory Spec2Isabelle
  imports Main "HOL-Library.Char_ord" "HOL-Library.List_Lexorder"
begin

section \<open>ImitatePass: the store operations of QtPass that imitate pass\<close>

text \<open>
  This theory embeds \<^verbatim>\<open>src/imitatepass.cpp\<close>. The class talks to three collaborators that
  are not part of that file: the settings (\<^verbatim>\<open>QtPassSettings\<close>), the executor (\<^verbatim>\<open>exec\<close>)
  and the file system as seen through Qt (\<^verbatim>\<open>QFile\<close>, \<^verbatim>\<open>QDir\<close>, \<^verbatim>\<open>QDirIterator\<close>,
  \<^verbatim>\<open>Pass::getRecipientList\<close>). The settings are a record of the values the getters
  return; the other two are a record of functions (the answers the code receives), and
  everything the code does to the outside is written to a trace of events in the order
  the source issues it. Strings are byte lists, ordered as \<^verbatim>\<open>QStringList::sort\<close> orders
  them (character by character by code, a proper prefix first); \<^verbatim>\<open>tr()\<close> is the identity
  (no translation loaded) and the \<^verbatim>\<open>dbg()\<close> log lines are not part of the trace.
\<close>

subsection \<open>Data\<close>

text \<open>The job identifiers passed to \<^verbatim>\<open>executeWrapper\<close> (an enumeration of the header).\<close>

datatype job =
  GIT_INIT | GIT_PULL | GIT_PUSH | PASS_SHOW | PASS_INSERT | GIT_ADD | GIT_COMMIT | GIT_RM

text \<open>
  What the code does to the outside.
  \<^item> \<open>Async id dir app args input\<close>: \<^verbatim>\<open>exec.execute(id, dir, app, args, input, ...)\<close>, the
    job-id-correlated dispatch that does not wait for the process;
  \<^item> \<open>Blocking app args input\<close>: \<^verbatim>\<open>exec.executeBlocking(app, args, ...)\<close>;
  \<^item> \<open>Critical title text\<close>, \<open>StatusMsg text ms\<close>, \<open>LastDecrypt text\<close>,
    \<open>StartReencryptPath\<close>, \<open>EndReencryptPath\<close>: the signals emitted;
  \<^item> \<open>GetRecipientList file\<close>: a call of \<^verbatim>\<open>Pass::getRecipientList(file)\<close>, which reads the
    declaration file that governs \<open>file\<close>;
  \<^item> \<open>FileWrite file content\<close>: \<open>file\<close> opened write-only (truncated), \<open>content\<close> written,
    closed; \<open>FileRemove\<close>, \<open>DirRemoveRecursively\<close>, \<open>RemoveDir\<close>: the direct deletions.
\<close>

datatype event =
    Async job string string "string list" string
  | Blocking string "string list" string
  | Critical string string
  | StatusMsg string nat
  | LastDecrypt string
  | StartReencryptPath
  | EndReencryptPath
  | GetRecipientList string
  | FileWrite string string
  | FileRemove string
  | DirRemoveRecursively string
  | RemoveDir string

text \<open>The fields of \<^verbatim>\<open>UserInfo\<close> that \<^verbatim>\<open>Init\<close> reads.\<close>

record UserInfo =
  key_id :: string
  enabled :: bool
  have_secret :: bool

text \<open>The values of the \<^verbatim>\<open>QtPassSettings\<close> getters the file calls.\<close>

record settings =
  getPassStore :: string
  getGitExecutable :: string
  getGpgExecutable :: string
  isUseWebDav :: bool
  isUseGit :: bool
  isAutoPull :: bool
  isAutoPush :: bool
  isAddGPGId :: bool

text \<open>
  One step of the \<^verbatim>\<open>QDirIterator\<close>: the path \<^verbatim>\<open>next()\<close> returns and
  \<^verbatim>\<open>fileInfo().path()\<close>, the directory part of that path.
\<close>

record dir_entry =
  fileName :: string
  dirPath :: string

text \<open>
  The answers of the collaborators.
  \<^item> \<open>getRecipientList file\<close>: the result of \<^verbatim>\<open>Pass::getRecipientList(file)\<close>;
  \<^item> \<open>executeBlocking app args input\<close>: \<open>Some (out, err)\<close> when the executor stores the
    process's standard output and standard error into the caller's strings, \<open>None\<close> when
    it leaves them as they were;
  \<^item> \<open>relativeFilePath dir file\<close>: \<^verbatim>\<open>QDir(dir).relativeFilePath(file)\<close>;
  \<^item> \<open>gpgFiles dir\<close>: the entries the iterator over \<^verbatim>\<open>*.gpg\<close> files below \<open>dir\<close> yields, in
    its order;
  \<^item> \<open>fileExists\<close>, \<open>fileIsFile\<close>: \<^verbatim>\<open>QFileInfo::exists\<close>, \<^verbatim>\<open>QFileInfo::isFile\<close>;
    \<open>openWriteOnly file\<close>: whether \<^verbatim>\<open>QFile::open(WriteOnly | Text)\<close> succeeds;
  \<^item> \<open>qt5\<close>: whether \<^verbatim>\<open>QT_VERSION >= QT_VERSION_CHECK(5, 0, 0)\<close>.

  An answer depends on the question alone. That is enough for one walk: the iterator
  yields a file once, and everything the walk asks about a file it asks before it writes
  the file.
\<close>

record env =
  getRecipientList :: "string \<Rightarrow> string list"
  executeBlocking :: "string \<Rightarrow> string list \<Rightarrow> string \<Rightarrow> (string \<times> string) option"
  relativeFilePath :: "string \<Rightarrow> string \<Rightarrow> string"
  gpgFiles :: "string \<Rightarrow> dir_entry list"
  fileExists :: "string \<Rightarrow> bool"
  fileIsFile :: "string \<Rightarrow> bool"
  openWriteOnly :: "string \<Rightarrow> bool"
  qt5 :: bool

subsection \<open>Strings\<close>

text \<open>
  \<^verbatim>\<open>QString::split(sep)\<close> for a one-character separator, with the default
  \<^verbatim>\<open>KeepEmptyParts\<close>: the text is cut at every occurrence of the separator, so two
  separators in a row enclose an empty part and the empty text has the one part \<open>''''\<close>.
  \<open>cur\<close> holds the characters of the part being read.
\<close>

fun split_from :: "char \<Rightarrow> string \<Rightarrow> string \<Rightarrow> string list" where
  "split_from sep cur [] = [cur]"
| "split_from sep cur (c # cs) =
     (if c = sep then cur # split_from sep [] cs else split_from sep (cur @ [c]) cs)"

definition split_str :: "char \<Rightarrow> string \<Rightarrow> string list" where
  "split_str sep s = split_from sep [] s"

text \<open>\<^verbatim>\<open>path.replace(QRegExp("\\.gpg$"), "")\<close>: a final \<^verbatim>\<open>.gpg\<close> is removed.\<close>

definition strip_gpg :: "string \<Rightarrow> string" where
  "strip_gpg p =
     (if length p \<ge> 4 \<and> drop (length p - 4) p = ''.gpg'' then take (length p - 4) p else p)"

text \<open>\<^verbatim>\<open>s.right(1)\<close>: the last character as a string, the empty string for the empty one.\<close>

definition right1 :: "string \<Rightarrow> string" where
  "right1 s = drop (length s - 1) s"

abbreviation newline :: char where
  "newline \<equiv> CHR 0x0A"

subsection \<open>Issuing commands\<close>

text \<open>
  \<^verbatim>\<open>executeWrapper\<close> hands the command to \<^verbatim>\<open>exec.execute\<close> with the store as working
  directory; the overload without \<open>input\<close> passes the empty string.
\<close>

definition executeWrapper :: "settings \<Rightarrow> job \<Rightarrow> string \<Rightarrow> string list \<Rightarrow> string \<Rightarrow> event list" where
  "executeWrapper cfg jid app args input = [Async jid (getPassStore cfg) app args input]"

definition GitPull_b :: "settings \<Rightarrow> event list" where
  "GitPull_b cfg = [Blocking (getGitExecutable cfg) [''pull''] []]"

definition GitPush :: "settings \<Rightarrow> event list" where
  "GitPush cfg = executeWrapper cfg GIT_PUSH (getGitExecutable cfg) [''push''] []"

definition GitCommit :: "settings \<Rightarrow> string \<Rightarrow> string \<Rightarrow> event list" where
  "GitCommit cfg file msg =
     executeWrapper cfg GIT_COMMIT (getGitExecutable cfg) [''commit'', ''-m'', msg, ''--'', file] []"

text \<open>The loop \<^verbatim>\<open>for (auto &r : recipients) { args.append("-r"); args.append(r); }\<close>.\<close>

fun recipient_args :: "string list \<Rightarrow> string list" where
  "recipient_args [] = []"
| "recipient_args (r # rs) = ''-r'' # r # recipient_args rs"

subsection \<open>Insert and Remove\<close>

definition Insert :: "env \<Rightarrow> settings \<Rightarrow> string \<Rightarrow> string \<Rightarrow> bool \<Rightarrow> event list" where
  "Insert env cfg file0 newValue overwrite =
     (let file = getPassStore cfg @ file0 @ ''.gpg'';
          recipients = getRecipientList env file
      in [GetRecipientList file] @
         (if recipients = [] then
            [Critical ''Can not edit''
               ''Could not read encryption key to use, .gpg-id file missing or invalid.'']
          else
            (let args = [''--batch'', ''-eq'', ''--output'', file] @ recipient_args recipients @
                        (if overwrite then [''--yes''] else []) @ [''-'']
             in executeWrapper cfg PASS_INSERT (getGpgExecutable cfg) args newValue @
                (if \<not> isUseWebDav cfg \<and> isUseGit cfg then
                   (if \<not> overwrite
                    then executeWrapper cfg GIT_ADD (getGitExecutable cfg) [''add'', file] []
                    else []) @
                   (let path = strip_gpg (relativeFilePath env (getPassStore cfg) file);
                        msg = (if overwrite then ''Edit'' else CHR 0x22 # ''Add'') @
                              '' for '' @ path @ '' using QtPass.''
                    in GitCommit cfg file msg)
                 else []))))"

definition Remove :: "env \<Rightarrow> settings \<Rightarrow> string \<Rightarrow> bool \<Rightarrow> event list" where
  "Remove env cfg file0 isDir =
     (let file = getPassStore cfg @ file0 @ (if \<not> isDir then ''.gpg'' else [])
      in if isUseGit cfg then
           executeWrapper cfg GIT_RM (getGitExecutable cfg)
             [''rm'', (if isDir then ''-rf'' else ''-f''), file] [] @
           GitCommit cfg file (''Remove for '' @ file @ '' using QtPass.'')
         else if isDir then
           (if qt5 env then [DirRemoveRecursively file]
            else [RemoveDir (getPassStore cfg @ file)])
         else [FileRemove file])"

subsection \<open>The re-encryption walk\<close>

text \<open>The argument vectors of the two \<^verbatim>\<open>gpg\<close> calls that name only the file.\<close>

definition list_only_args :: "string \<Rightarrow> string list" where
  "list_only_args file =
     [''-v'', ''--no-secmem-warning'', ''--no-permission-warning'', ''--list-only'',
      ''--keyid-format=long'', file]"

definition decrypt_args :: "string \<Rightarrow> string list" where
  "decrypt_args file =
     [''-d'', ''--quiet'', ''--yes'', ''--no-encrypt-to'', ''--batch'', ''--use-agent'', file]"

text \<open>
  The check at the head of the loop body: when \<^verbatim>\<open>gpgFiles.fileInfo().path()\<close> differs from
  \<^verbatim>\<open>currentDir.path()\<close> the list \<^verbatim>\<open>gpgId\<close> is read again and sorted, otherwise it keeps
  its value. The result is the event of the read (if any) and the value of \<^verbatim>\<open>gpgId\<close>
  after the check.
\<close>

definition reload_gpgId :: "env \<Rightarrow> string \<Rightarrow> string list \<Rightarrow> dir_entry \<Rightarrow> event list \<times> string list" where
  "reload_gpgId env currentDir gpgId e =
     (if dirPath e \<noteq> currentDir
      then ([GetRecipientList (fileName e)], sort (getRecipientList env (fileName e)))
      else ([], gpgId))"

text \<open>
  The text that is parsed: \<^verbatim>\<open>keys\<close> and \<^verbatim>\<open>err\<close> start empty, the list-only call fills
  them, and \<^verbatim>\<open>keys += err\<close> joins them.
\<close>

definition list_only_text :: "env \<Rightarrow> settings \<Rightarrow> string \<Rightarrow> string" where
  "list_only_text env cfg file =
     (case executeBlocking env (getGpgExecutable cfg) (list_only_args file) [] of
        Some (keys, err) \<Rightarrow> keys @ err
      | None \<Rightarrow> [])"

text \<open>
  The inner loop over the lines: \<open>actualKeys\<close> is the list collected so far. A line is cut
  at every space; when it has more than four parts and the part at index 4 has length 16,
  that part is appended.
\<close>

fun collect_keys :: "string list \<Rightarrow> string list \<Rightarrow> string list" where
  "collect_keys actualKeys [] = actualKeys"
| "collect_keys actualKeys (current # rest) =
     (let cur = split_str CHR '' '' current
      in if length cur > 4 then
           (let actualKey = cur ! 4
            in if length actualKey = 16 then collect_keys (actualKeys @ [actualKey]) rest
               else collect_keys actualKeys rest)
         else collect_keys actualKeys rest)"

definition parse_keys :: "string \<Rightarrow> string list" where
  "parse_keys text = sort (collect_keys [] (split_str newline text))"

definition actualKeys_of :: "env \<Rightarrow> settings \<Rightarrow> string \<Rightarrow> string list" where
  "actualKeys_of env cfg file = parse_keys (list_only_text env cfg file)"

text \<open>
  The decryption: \<^verbatim>\<open>local_lastDecrypt\<close> starts as \<^verbatim>\<open>"Could not decrypt"\<close> and the call
  stores the standard output of \<^verbatim>\<open>gpg -d\<close> into it.
\<close>

definition decrypt_text :: "env \<Rightarrow> settings \<Rightarrow> string \<Rightarrow> string" where
  "decrypt_text env cfg file =
     (case executeBlocking env (getGpgExecutable cfg) (decrypt_args file) [] of
        Some (out, err) \<Rightarrow> out
      | None \<Rightarrow> ''Could not decrypt'')"

text \<open>\<^verbatim>\<open>if (local_lastDecrypt.right(1) != "\n") local_lastDecrypt += "\n";\<close>\<close>

definition with_newline :: "string \<Rightarrow> string" where
  "with_newline s = (if right1 s \<noteq> [newline] then s @ [newline] else s)"

definition edit_message :: "env \<Rightarrow> settings \<Rightarrow> string \<Rightarrow> string" where
  "edit_message env cfg file =
     ''Edit for '' @ strip_gpg (relativeFilePath env (getPassStore cfg) file) @ '' using QtPass.''"

text \<open>
  The branch taken after a decryption that produced a text: the events, and whether the
  function returned from inside the loop.
\<close>

definition reencrypt :: "env \<Rightarrow> settings \<Rightarrow> string \<Rightarrow> string \<Rightarrow> event list \<times> bool" where
  "reencrypt env cfg file decrypted =
     (let local_lastDecrypt = with_newline decrypted;
          recipients = getRecipientList env file
      in if recipients = [] then
           ([LastDecrypt local_lastDecrypt, GetRecipientList file,
             Critical ''Can not edit''
               ''Could not read encryption key to use, .gpg-id file missing or invalid.''],
            True)
         else
           ([LastDecrypt local_lastDecrypt, GetRecipientList file,
             Blocking (getGpgExecutable cfg)
               ([''--yes'', ''--batch'', ''-eq'', ''--output'', file] @
                recipient_args recipients @ [''-''])
               local_lastDecrypt] @
            (if \<not> isUseWebDav cfg \<and> isUseGit cfg then
               [Blocking (getGitExecutable cfg) [''add'', file] [],
                Blocking (getGitExecutable cfg)
                  [''commit'', file, ''-m'', edit_message env cfg file] []]
             else []),
            False))"

text \<open>
  One pass through the loop body for the entry \<open>e\<close>: the events, the value of \<^verbatim>\<open>gpgId\<close>
  afterwards, and whether the function returned.
\<close>

definition visit :: "env \<Rightarrow> settings \<Rightarrow> string \<Rightarrow> string list \<Rightarrow> dir_entry \<Rightarrow> event list \<times> string list \<times> bool" where
  "visit env cfg currentDir gpgId0 e =
     (let file = fileName e;
          (ev_reload, gpgId) = reload_gpgId env currentDir gpgId0 e;
          ev_list = [Blocking (getGpgExecutable cfg) (list_only_args file) []];
          actualKeys = actualKeys_of env cfg file
      in if actualKeys \<noteq> gpgId then
           (let local_lastDecrypt = decrypt_text env cfg file;
                ev_decrypt = [LastDecrypt ''Could not decrypt'',
                              Blocking (getGpgExecutable cfg) (decrypt_args file) [],
                              LastDecrypt local_lastDecrypt]
            in if local_lastDecrypt \<noteq> [] \<and> local_lastDecrypt \<noteq> ''Could not decrypt'' then
                 (let (ev_reencrypt, returned) = reencrypt env cfg file local_lastDecrypt
                  in (ev_reload @ ev_list @ ev_decrypt @ ev_reencrypt, gpgId, returned))
               else (ev_reload @ ev_list @ ev_decrypt, gpgId, False))
         else (ev_reload @ ev_list, gpgId, False))"

text \<open>
  The loop \<^verbatim>\<open>while (gpgFiles.hasNext())\<close> over the entries still to come. \<open>currentDir\<close> is
  passed on as it is: the body never assigns it.
\<close>

fun walk :: "env \<Rightarrow> settings \<Rightarrow> string \<Rightarrow> string list \<Rightarrow> dir_entry list \<Rightarrow> event list \<times> string list \<times> bool" where
  "walk env cfg currentDir gpgId [] = ([], gpgId, False)"
| "walk env cfg currentDir gpgId (e # es) =
     (case visit env cfg currentDir gpgId e of
        (evs, gpgId', True) \<Rightarrow> (evs, gpgId', True)
      | (evs, gpgId', False) \<Rightarrow>
          (case walk env cfg currentDir gpgId' es of
             (evs', gpgId'', returned) \<Rightarrow> (evs @ evs', gpgId'', returned)))"

text \<open>
  \<^verbatim>\<open>QDir currentDir;\<close> is the default directory, whose \<^verbatim>\<open>path()\<close> is \<^verbatim>\<open>"."\<close>, and
  \<^verbatim>\<open>QStringList gpgId;\<close> is the empty list.
\<close>

definition reencryptPath :: "env \<Rightarrow> settings \<Rightarrow> string \<Rightarrow> event list" where
  "reencryptPath env cfg dir =
     [StatusMsg (''Re-encrypting from folder '' @ dir) 3000, StartReencryptPath] @
     (if isAutoPull cfg then [StatusMsg ''Updating password-store'' 2000] @ GitPull_b cfg else []) @
     (case walk env cfg ''.'' [] (gpgFiles env dir) of
        (evs, gpgId, True) \<Rightarrow> evs
      | (evs, gpgId, False) \<Rightarrow>
          evs @
          (if isAutoPush cfg then [StatusMsg ''Updating password-store'' 2000] @ GitPush cfg else []) @
          [EndReencryptPath])"

subsection \<open>Init\<close>

text \<open>
  The loop over the users: what has been written to the file so far, and
  \<^verbatim>\<open>secret_selected\<close>.
\<close>

fun write_users :: "UserInfo list \<Rightarrow> string \<times> bool \<Rightarrow> string \<times> bool" where
  "write_users [] st = st"
| "write_users (user # users) (written, secret_selected) =
     (if enabled user
      then write_users users (written @ key_id user @ [newline], secret_selected \<or> have_secret user)
      else write_users users (written, secret_selected))"

definition Init :: "env \<Rightarrow> settings \<Rightarrow> string \<Rightarrow> UserInfo list \<Rightarrow> event list" where
  "Init env cfg path users =
     (let gpgIdFile = path @ ''.gpg-id'';
          addFile = (isAddGPGId cfg \<and> (\<not> fileExists env gpgIdFile \<or> \<not> fileIsFile env gpgIdFile))
      in if \<not> openWriteOnly env gpgIdFile then
           [Critical ''Cannot update'' ''Failed to open .gpg-id for writing.'']
         else
           (let (written, secret_selected) = write_users users ([], False)
            in [FileWrite gpgIdFile written] @
               (if \<not> secret_selected then
                  [Critical ''Check selected users!''
                     (''None of the selected keys have a secret key available.'' @ [newline] @
                      ''You will not be able to decrypt any newly added passwords!'')]
                else
                  (if \<not> isUseWebDav cfg \<and> isUseGit cfg \<and> getGitExecutable cfg \<noteq> [] then
                     (if addFile
                      then executeWrapper cfg GIT_ADD (getGitExecutable cfg) [''add'', gpgIdFile] []
                      else []) @
                     GitCommit cfg gpgIdFile (''Added '' @ strip_gpg gpgIdFile @ '' using QtPass.'')
                   else []) @
                  reencryptPath env cfg path)))"

subsection \<open>A small store\<close>

text \<open>
  A store at \<^verbatim>\<open>/store/\<close> under git, whose declaration names the key \<open>BBBBBBBBBBBBBBBB\<close>.
  \<^verbatim>\<open>secrets/db\<close> and \<^verbatim>\<open>secrets/broken\<close> are encrypted for \<open>AAAAAAAAAAAAAAAA\<close>, and
  \<^verbatim>\<open>secrets/web\<close> for the declared key; \<^verbatim>\<open>secrets/broken\<close> cannot be decrypted, and no
  declaration governs \<^verbatim>\<open>orphan/x\<close>.
\<close>

definition demo_cfg :: settings where
  "demo_cfg =
     \<lparr>getPassStore = ''/store/'', getGitExecutable = ''git'', getGpgExecutable = ''gpg'',
      isUseWebDav = False, isUseGit = True, isAutoPull = True, isAutoPush = True,
      isAddGPGId = True\<rparr>"

definition demo_db :: dir_entry where
  "demo_db = \<lparr>fileName = ''/store/secrets/db.gpg'', dirPath = ''/store/secrets''\<rparr>"

definition demo_web :: dir_entry where
  "demo_web = \<lparr>fileName = ''/store/secrets/web.gpg'', dirPath = ''/store/secrets''\<rparr>"

definition demo_broken :: dir_entry where
  "demo_broken = \<lparr>fileName = ''/store/secrets/broken.gpg'', dirPath = ''/store/secrets''\<rparr>"

definition demo_orphan :: dir_entry where
  "demo_orphan = \<lparr>fileName = ''/store/orphan/x.gpg'', dirPath = ''/store/orphan''\<rparr>"

definition demo_mail :: dir_entry where
  "demo_mail = \<lparr>fileName = ''/store/secrets/mail.gpg'', dirPath = ''/store/secrets''\<rparr>"

definition demo_env :: env where
  "demo_env =
     \<lparr>getRecipientList =
        (\<lambda>file. if file = ''/store/orphan/x.gpg'' then [] else [''BBBBBBBBBBBBBBBB'']),
      executeBlocking =
        (\<lambda>app args input.
           if hd args = ''-v'' then
             (if last args = ''/store/secrets/web.gpg'' \<or> last args = ''/store/secrets/mail.gpg'' \<or>
                 last args = ''./web.gpg''
              then Some ([], ''gpg: public key is BBBBBBBBBBBBBBBB'' @ [newline])
              else Some ([], ''gpg: public key is AAAAAAAAAAAAAAAA'' @ [newline]))
           else if hd args = ''-d'' then
             (if last args = ''/store/secrets/broken.gpg'' then None
              else Some (''hunter2'', []))
           else Some ([], [])),
      relativeFilePath = (\<lambda>dir file. drop (length dir) file),
      gpgFiles =
        (\<lambda>dir. if dir = ''/store/secrets/'' then [demo_db, demo_web, demo_mail, demo_broken]
              else [demo_db, demo_web, demo_mail, demo_broken, demo_orphan]),
      fileExists = (\<lambda>file. False),
      fileIsFile = (\<lambda>file. False),
      openWriteOnly = (\<lambda>file. file \<noteq> ''/readonly/.gpg-id''),
      qt5 = True\<rparr>"

text \<open>The same settings with the WebDAV backend switched on beside git.\<close>

definition demo_cfg_webdav :: settings where
  "demo_cfg_webdav = demo_cfg\<lparr>isUseWebDav := True\<rparr>"

text \<open>
  The same store reached through the relative path \<^verbatim>\<open>./\<close>: for the file \<^verbatim>\<open>./web.gpg\<close> at
  its top the iterator reports the directory \<^verbatim>\<open>.\<close>. The file is encrypted for the declared
  key.
\<close>

definition demo_cfg_dot :: settings where
  "demo_cfg_dot = demo_cfg\<lparr>getPassStore := ''./''\<rparr>"

definition demo_dot :: dir_entry where
  "demo_dot = \<lparr>fileName = ''./web.gpg'', dirPath = ''.''\<rparr>"

subsection \<open>The words of the specification on the fields of a line\<close>

text \<open>
  The specification speaks of the whitespace-separated fields of a line. Read as usual,
  the fields are the maximal runs of characters that are not whitespace (space, tab,
  line feed, vertical tab, form feed, carriage return); \<open>spec_line_keys\<close> is what a line
  contributes under that reading: its fifth field when there are more than four and the
  fifth has 16 characters.
\<close>

definition is_whitespace :: "char \<Rightarrow> bool" where
  "is_whitespace c =
     (c = CHR '' '' \<or> c = CHR 0x09 \<or> c = CHR 0x0A \<or> c = CHR 0x0B \<or> c = CHR 0x0C \<or> c = CHR 0x0D)"

fun spec_fields_from :: "string \<Rightarrow> string \<Rightarrow> string list" where
  "spec_fields_from cur [] = (if cur = [] then [] else [cur])"
| "spec_fields_from cur (c # cs) =
     (if is_whitespace c then (if cur = [] then [] else [cur]) @ spec_fields_from [] cs
      else spec_fields_from (cur @ [c]) cs)"

definition spec_fields :: "string \<Rightarrow> string list" where
  "spec_fields line = spec_fields_from [] line"

definition spec_line_keys :: "string \<Rightarrow> string list" where
  "spec_line_keys line =
     (if length (spec_fields line) > 4 \<and> length (spec_fields line ! 4) = 16
      then [spec_fields line ! 4] else [])"

text \<open>A line whose first two words are separated by a tab.\<close>

definition tab_line :: string where
  "tab_line = ''gpg:'' @ [CHR 0x09] @ ''public key is for AAAAAAAAAAAAAAAA''"

subsection \<open>Kinds of events\<close>

fun is_async :: "event \<Rightarrow> bool" where
  "is_async (Async jid dir app args input) = True"
| "is_async ev = False"

fun is_blocking :: "event \<Rightarrow> bool" where
  "is_blocking (Blocking app args input) = True"
| "is_blocking ev = False"

definition is_command :: "event \<Rightarrow> bool" where
  "is_command ev = (is_async ev \<or> is_blocking ev)"

section \<open>Properties of the walk\<close>

subsection \<open>The loop, one entry at a time\<close>

text \<open>A walk over \<open>xs @ ys\<close> is the walk over \<open>xs\<close> and, unless it returned, the walk over \<open>ys\<close>.\<close>

lemma walk_append:
  "walk env cfg cd g (xs @ ys) =
     (case walk env cfg cd g xs of
        (evs, g', True) \<Rightarrow> (evs, g', True)
      | (evs, g', False) \<Rightarrow>
          (case walk env cfg cd g' ys of (evs', g'', r) \<Rightarrow> (evs @ evs', g'', r)))"
  by (induction xs arbitrary: g) (auto split: prod.splits bool.splits)

text \<open>When the walk gets past \<open>pre\<close>, what happens next is the loop body for \<open>e\<close>.\<close>

lemma walk_reach:
  assumes "walk env cfg cd g0 pre = (before, g1, False)"
  shows "walk env cfg cd g0 (pre @ e # post) =
     (case visit env cfg cd g1 e of
        (evs, g, True) \<Rightarrow> (before @ evs, g, True)
      | (evs, g, False) \<Rightarrow>
          (case walk env cfg cd g post of (evs', g', r) \<Rightarrow> (before @ evs @ evs', g', r)))"
  using assms by (simp add: walk_append split: prod.splits bool.splits)

lemma visit_same:
  assumes "reload_gpgId env cd g1 e = (ev_reload, g)"
      and "actualKeys_of env cfg (fileName e) = g"
  shows "visit env cfg cd g1 e =
           (ev_reload @ [Blocking (getGpgExecutable cfg) (list_only_args (fileName e)) []],
            g, False)"
  using assms by (simp add: visit_def)

lemma visit_decrypt_failed:
  assumes "reload_gpgId env cd g1 e = (ev_reload, g)"
      and "actualKeys_of env cfg (fileName e) \<noteq> g"
      and "decrypt_text env cfg (fileName e) = [] \<or>
           decrypt_text env cfg (fileName e) = ''Could not decrypt''"
  shows "visit env cfg cd g1 e =
           (ev_reload @
            [Blocking (getGpgExecutable cfg) (list_only_args (fileName e)) [],
             LastDecrypt ''Could not decrypt'',
             Blocking (getGpgExecutable cfg) (decrypt_args (fileName e)) [],
             LastDecrypt (decrypt_text env cfg (fileName e))], g, False)"
  using assms by (auto simp add: visit_def Let_def)

lemma visit_decrypted:
  assumes "reload_gpgId env cd g1 e = (ev_reload, g)"
      and "actualKeys_of env cfg (fileName e) \<noteq> g"
      and "decrypt_text env cfg (fileName e) \<noteq> []"
      and "decrypt_text env cfg (fileName e) \<noteq> ''Could not decrypt''"
  shows "visit env cfg cd g1 e =
           (ev_reload @
            [Blocking (getGpgExecutable cfg) (list_only_args (fileName e)) [],
             LastDecrypt ''Could not decrypt'',
             Blocking (getGpgExecutable cfg) (decrypt_args (fileName e)) [],
             LastDecrypt (decrypt_text env cfg (fileName e))] @
            fst (reencrypt env cfg (fileName e) (decrypt_text env cfg (fileName e))),
            g, snd (reencrypt env cfg (fileName e) (decrypt_text env cfg (fileName e))))"
  using assms by (simp add: visit_def Let_def split: prod.splits)

text \<open>
  A store in which every entry lies outside \<open>currentDir\<close> and is encrypted for the sorted
  declaration of its own path: the walk reads the declaration and lists the keys of each
  entry, and does nothing else.
\<close>

lemma walk_converged_store:
  assumes "list_all (\<lambda>e. dirPath e \<noteq> currentDir \<and>
              actualKeys_of env cfg (fileName e) = sort (getRecipientList env (fileName e))) es"
  shows "walk env cfg currentDir gpgId es =
           (concat (map (\<lambda>e. [GetRecipientList (fileName e),
                               Blocking (getGpgExecutable cfg) (list_only_args (fileName e)) []]) es),
            (if es = [] then gpgId else sort (getRecipientList env (fileName (last es)))),
            False)"
  using assms
proof (induction es arbitrary: gpgId)
  case Nil
  then show ?case by simp
next
  case (Cons e es)
  from Cons.prems have d: "dirPath e \<noteq> currentDir"
    and a: "actualKeys_of env cfg (fileName e) = sort (getRecipientList env (fileName e))"
    and r: "list_all (\<lambda>e. dirPath e \<noteq> currentDir \<and>
              actualKeys_of env cfg (fileName e) = sort (getRecipientList env (fileName e))) es"
    by simp_all
  from d have c: "reload_gpgId env currentDir gpgId e =
      ([GetRecipientList (fileName e)], sort (getRecipientList env (fileName e)))"
    by (simp add: reload_gpgId_def)
  show ?case
    using visit_same [OF c a] Cons.IH [OF r] by simp
qed

subsection \<open>Converged and drifted entries\<close>

text \<open>
  C1, as amended. Let the walk reach the entry \<open>e\<close> (it got past \<open>pre\<close> without returning),
  let the directory of \<open>e\<close> differ from \<open>currentDir\<close>, so that the walk resolves the declared
  recipients at \<open>e\<close>, and let the sorted keys read from the entry differ from the sorted
  declared recipients of the entry. Let the walk succeed at \<open>e\<close>: the decryption gives a
  text that is neither empty nor \<^verbatim>\<open>"Could not decrypt"\<close>, and the declaration is not empty.
  Then what the walk does for \<open>e\<close> is exactly: read the declaration, list the keys,
  decrypt, read the declaration again, encrypt the text (with one final line feed) to
  the same file, overwriting it, with \<^verbatim>\<open>-r\<close> and the recipient for each declared recipient
  in turn and for nobody else (so the file is encrypted for exactly the declared set),
  and, when git is in use and WebDAV is not, \<^verbatim>\<open>git add\<close> and one \<^verbatim>\<open>git commit\<close> with the
  message \<^verbatim>\<open>Edit for <relative path without .gpg> using QtPass.\<close>; when WebDAV is in use or
  git is not, no commit. The walk then goes on with the entries after \<open>e\<close>.
\<close>

theorem drift_entry_reencrypted:
  assumes reach: "walk env cfg currentDir gpgId0 pre = (before, gpgId1, False)"
      and resolved: "dirPath e \<noteq> currentDir"
      and differ: "actualKeys_of env cfg (fileName e) \<noteq> sort (getRecipientList env (fileName e))"
      and decrypted: "decrypt_text env cfg (fileName e) \<noteq> []"
                     "decrypt_text env cfg (fileName e) \<noteq> ''Could not decrypt''"
      and declared: "getRecipientList env (fileName e) \<noteq> []"
      and rest: "walk env cfg currentDir (sort (getRecipientList env (fileName e))) post =
                   (after, gpgId2, returned)"
  shows "walk env cfg currentDir gpgId0 (pre @ e # post) =
           (before @
            [GetRecipientList (fileName e),
             Blocking (getGpgExecutable cfg) (list_only_args (fileName e)) [],
             LastDecrypt ''Could not decrypt'',
             Blocking (getGpgExecutable cfg) (decrypt_args (fileName e)) [],
             LastDecrypt (decrypt_text env cfg (fileName e)),
             LastDecrypt (with_newline (decrypt_text env cfg (fileName e))),
             GetRecipientList (fileName e),
             Blocking (getGpgExecutable cfg)
               ([''--yes'', ''--batch'', ''-eq'', ''--output'', fileName e] @
                recipient_args (getRecipientList env (fileName e)) @ [''-''])
               (with_newline (decrypt_text env cfg (fileName e)))] @
            (if \<not> isUseWebDav cfg \<and> isUseGit cfg then
               [Blocking (getGitExecutable cfg) [''add'', fileName e] [],
                Blocking (getGitExecutable cfg)
                  [''commit'', fileName e, ''-m'',
                   ''Edit for '' @
                   strip_gpg (relativeFilePath env (getPassStore cfg) (fileName e)) @
                   '' using QtPass.''] []]
             else []) @ after,
            gpgId2, returned)"
proof -
  have check: "reload_gpgId env currentDir gpgId1 e =
      ([GetRecipientList (fileName e)], sort (getRecipientList env (fileName e)))"
    using resolved by (simp add: reload_gpgId_def)
  show ?thesis
    using walk_reach [OF reach, of e post] visit_decrypted [OF check differ decrypted]
      declared rest
    by (simp add: reencrypt_def edit_message_def Let_def)
qed

text \<open>
  The theorem at work in the small store: after the converged \<^verbatim>\<open>secrets/web\<close>, the drifted
  \<^verbatim>\<open>secrets/db\<close> is encrypted again for the declared key and committed, and the walk goes on
  to \<^verbatim>\<open>secrets/mail\<close>.
\<close>

theorem drift_entry_reencrypted_witness:
  "dirPath demo_db \<noteq> ''.'' \<and>
   actualKeys_of demo_env demo_cfg (fileName demo_db) = [''AAAAAAAAAAAAAAAA''] \<and>
   sort (getRecipientList demo_env (fileName demo_db)) = [''BBBBBBBBBBBBBBBB''] \<and>
   walk demo_env demo_cfg ''.'' [] ([demo_web] @ demo_db # [demo_mail]) =
     ([GetRecipientList ''/store/secrets/web.gpg'',
       Blocking ''gpg'' (list_only_args ''/store/secrets/web.gpg'') [],
       GetRecipientList ''/store/secrets/db.gpg'',
       Blocking ''gpg'' (list_only_args ''/store/secrets/db.gpg'') [],
       LastDecrypt ''Could not decrypt'',
       Blocking ''gpg'' (decrypt_args ''/store/secrets/db.gpg'') [],
       LastDecrypt ''hunter2'',
       LastDecrypt (''hunter2'' @ [newline]),
       GetRecipientList ''/store/secrets/db.gpg'',
       Blocking ''gpg''
         [''--yes'', ''--batch'', ''-eq'', ''--output'', ''/store/secrets/db.gpg'',
          ''-r'', ''BBBBBBBBBBBBBBBB'', ''-'']
         (''hunter2'' @ [newline]),
       Blocking ''git'' [''add'', ''/store/secrets/db.gpg''] [],
       Blocking ''git''
         [''commit'', ''/store/secrets/db.gpg'', ''-m'', ''Edit for secrets/db using QtPass.''] [],
       GetRecipientList ''/store/secrets/mail.gpg'',
       Blocking ''gpg'' (list_only_args ''/store/secrets/mail.gpg'') []],
      [''BBBBBBBBBBBBBBBB''], False)"
proof -
  have reach: "walk demo_env demo_cfg ''.'' [] [demo_web] =
      ([GetRecipientList ''/store/secrets/web.gpg'',
        Blocking ''gpg'' (list_only_args ''/store/secrets/web.gpg'') []],
       [''BBBBBBBBBBBBBBBB''], False)"
    by (simp add: demo_env_def demo_cfg_def demo_db_def demo_web_def demo_mail_def
        demo_broken_def demo_orphan_def visit_def reload_gpgId_def reencrypt_def
        actualKeys_of_def list_only_text_def parse_keys_def split_str_def decrypt_text_def
        list_only_args_def decrypt_args_def with_newline_def right1_def edit_message_def
        strip_gpg_def Let_def)
  have resolved: "dirPath demo_db \<noteq> ''.''"
    by (simp add: demo_db_def)
  have keys: "actualKeys_of demo_env demo_cfg (fileName demo_db) = [''AAAAAAAAAAAAAAAA'']"
    by (simp add: demo_env_def demo_cfg_def demo_db_def demo_web_def demo_mail_def
        demo_broken_def demo_orphan_def visit_def reload_gpgId_def reencrypt_def
        actualKeys_of_def list_only_text_def parse_keys_def split_str_def decrypt_text_def
        list_only_args_def decrypt_args_def with_newline_def right1_def edit_message_def
        strip_gpg_def Let_def)
  have decl: "getRecipientList demo_env (fileName demo_db) = [''BBBBBBBBBBBBBBBB'']"
    by (simp add: demo_env_def demo_db_def)
  have differ: "actualKeys_of demo_env demo_cfg (fileName demo_db) \<noteq>
      sort (getRecipientList demo_env (fileName demo_db))"
    by (simp add: keys decl)
  have plain: "decrypt_text demo_env demo_cfg (fileName demo_db) = ''hunter2''"
    by (simp add: demo_env_def demo_cfg_def demo_db_def demo_web_def demo_mail_def
        demo_broken_def demo_orphan_def visit_def reload_gpgId_def reencrypt_def
        actualKeys_of_def list_only_text_def parse_keys_def split_str_def decrypt_text_def
        list_only_args_def decrypt_args_def with_newline_def right1_def edit_message_def
        strip_gpg_def Let_def)
  have decrypted: "decrypt_text demo_env demo_cfg (fileName demo_db) \<noteq> []"
    "decrypt_text demo_env demo_cfg (fileName demo_db) \<noteq> ''Could not decrypt''"
    by (simp_all add: plain)
  have declared: "getRecipientList demo_env (fileName demo_db) \<noteq> []"
    by (simp add: decl)
  have rest: "walk demo_env demo_cfg ''.'' (sort (getRecipientList demo_env (fileName demo_db)))
        [demo_mail] =
      ([GetRecipientList ''/store/secrets/mail.gpg'',
        Blocking ''gpg'' (list_only_args ''/store/secrets/mail.gpg'') []],
       [''BBBBBBBBBBBBBBBB''], False)"
    by (simp add: demo_env_def demo_cfg_def demo_db_def demo_web_def demo_mail_def
        demo_broken_def demo_orphan_def visit_def reload_gpgId_def reencrypt_def
        actualKeys_of_def list_only_text_def parse_keys_def split_str_def decrypt_text_def
        list_only_args_def decrypt_args_def with_newline_def right1_def edit_message_def
        strip_gpg_def Let_def)
  have rel: "strip_gpg (relativeFilePath demo_env (getPassStore demo_cfg) (fileName demo_db)) =
      ''secrets/db''"
    by (simp add: demo_env_def demo_cfg_def demo_db_def demo_web_def demo_mail_def
        demo_broken_def demo_orphan_def visit_def reload_gpgId_def reencrypt_def
        actualKeys_of_def list_only_text_def parse_keys_def split_str_def decrypt_text_def
        list_only_args_def decrypt_args_def with_newline_def right1_def edit_message_def
        strip_gpg_def Let_def)
  show ?thesis
    using drift_entry_reencrypted [OF reach resolved differ decrypted declared rest] keys decl
      resolved
    by (simp add: plain rel with_newline_def right1_def)
      (simp add: demo_cfg_def demo_db_def)
qed

text \<open>
  C1 as it is written promises the commit whenever version control is active. With git
  and WebDAV both in use the drifted entry is encrypted again and nothing is committed.
\<close>

theorem drift_entry_no_commit_under_webdav:
  "isUseGit demo_cfg_webdav \<and> dirPath demo_db \<noteq> ''.'' \<and>
   actualKeys_of demo_env demo_cfg_webdav (fileName demo_db) \<noteq>
     sort (getRecipientList demo_env (fileName demo_db)) \<and>
   walk demo_env demo_cfg_webdav ''.'' [] [demo_db] =
     ([GetRecipientList ''/store/secrets/db.gpg'',
       Blocking ''gpg'' (list_only_args ''/store/secrets/db.gpg'') [],
       LastDecrypt ''Could not decrypt'',
       Blocking ''gpg'' (decrypt_args ''/store/secrets/db.gpg'') [],
       LastDecrypt ''hunter2'',
       LastDecrypt (''hunter2'' @ [newline]),
       GetRecipientList ''/store/secrets/db.gpg'',
       Blocking ''gpg''
         [''--yes'', ''--batch'', ''-eq'', ''--output'', ''/store/secrets/db.gpg'',
          ''-r'', ''BBBBBBBBBBBBBBBB'', ''-'']
         (''hunter2'' @ [newline])],
      [''BBBBBBBBBBBBBBBB''], False)"
  by (simp add: demo_cfg_webdav_def demo_env_def demo_cfg_def demo_db_def demo_web_def demo_mail_def
        demo_broken_def demo_orphan_def visit_def reload_gpgId_def reencrypt_def
        actualKeys_of_def list_only_text_def parse_keys_def split_str_def decrypt_text_def
        list_only_args_def decrypt_args_def with_newline_def right1_def edit_message_def
        strip_gpg_def Let_def)

text \<open>
  An entry whose sorted keys equal the list \<open>gpgId\<close> the walk holds after its directory
  check: all the walk does for it is that check and the list-only call, and it goes on
  with the entries after it. Where the directory of the entry differs from \<open>currentDir\<close>
  the list held is the sorted declaration of the entry (\<open>walk_converged_store\<close> above).
\<close>

lemma held_list_entry_untouched:
  assumes reach: "walk env cfg currentDir gpgId0 pre = (before, gpgId1, False)"
      and check: "reload_gpgId env currentDir gpgId1 e = (ev_reload, gpgId)"
      and same: "actualKeys_of env cfg (fileName e) = gpgId"
      and rest: "walk env cfg currentDir gpgId post = (after, gpgId2, returned)"
  shows "walk env cfg currentDir gpgId0 (pre @ e # post) =
           (before @ ev_reload @
            [Blocking (getGpgExecutable cfg) (list_only_args (fileName e)) []] @ after,
            gpgId2, returned)"
  using walk_reach [OF reach, of e post] visit_same [OF check same] rest by simp

text \<open>
  C2 fails on the code. The walk over \<^verbatim>\<open>./\<close> meets \<^verbatim>\<open>./web.gpg\<close>, whose directory is \<^verbatim>\<open>.\<close>.
  The file is encrypted for exactly its declared recipients, so the claim has the walk
  leave it alone. The directory check compares \<^verbatim>\<open>.\<close> with \<^verbatim>\<open>currentDir\<close>, which is still
  \<^verbatim>\<open>"."\<close>, so the declaration is not read and \<^verbatim>\<open>gpgId\<close> is still empty; the keys of the file
  differ from the empty list, and the file is decrypted, encrypted again and committed.
\<close>

theorem converged_entry_in_dot_reencrypted:
  "actualKeys_of demo_env demo_cfg_dot (fileName demo_dot) =
     sort (getRecipientList demo_env (fileName demo_dot)) \<and>
   walk demo_env demo_cfg_dot ''.'' [] [demo_dot] =
     ([Blocking ''gpg'' (list_only_args ''./web.gpg'') [],
       LastDecrypt ''Could not decrypt'',
       Blocking ''gpg'' (decrypt_args ''./web.gpg'') [],
       LastDecrypt ''hunter2'',
       LastDecrypt (''hunter2'' @ [newline]),
       GetRecipientList ''./web.gpg'',
       Blocking ''gpg''
         [''--yes'', ''--batch'', ''-eq'', ''--output'', ''./web.gpg'',
          ''-r'', ''BBBBBBBBBBBBBBBB'', ''-'']
         (''hunter2'' @ [newline]),
       Blocking ''git'' [''add'', ''./web.gpg''] [],
       Blocking ''git'' [''commit'', ''./web.gpg'', ''-m'', ''Edit for web using QtPass.''] []],
      [], False)"
  by (simp add: demo_cfg_dot_def demo_dot_def demo_env_def demo_cfg_def demo_db_def demo_web_def demo_mail_def
        demo_broken_def demo_orphan_def visit_def reload_gpgId_def reencrypt_def
        actualKeys_of_def list_only_text_def parse_keys_def split_str_def decrypt_text_def
        list_only_args_def decrypt_args_def with_newline_def right1_def edit_message_def
        strip_gpg_def Let_def)

subsection \<open>Failures inside the walk\<close>

text \<open>
  C4. Let the walk reach the entry \<open>e\<close>, let its keys differ from the declared list, and let
  the decryption leave the empty text or \<^verbatim>\<open>"Could not decrypt"\<close>. Then the walk does for
  \<open>e\<close> the list-only call and the decryption and nothing else (no encryption, no commit:
  the file is not written), and it goes on with every entry after \<open>e\<close>: the rest of the
  trace is the walk over \<open>post\<close>. This holds at every position, \<open>pre\<close> being any entries the
  walk got past.
\<close>

theorem decrypt_failure_continues:
  assumes reach: "walk env cfg currentDir gpgId0 pre = (before, gpgId1, False)"
      and check: "reload_gpgId env currentDir gpgId1 e = (ev_reload, gpgId)"
      and differ: "actualKeys_of env cfg (fileName e) \<noteq> gpgId"
      and failed: "decrypt_text env cfg (fileName e) = [] \<or>
                   decrypt_text env cfg (fileName e) = ''Could not decrypt''"
      and rest: "walk env cfg currentDir gpgId post = (after, gpgId2, returned)"
  shows "walk env cfg currentDir gpgId0 (pre @ e # post) =
           (before @ ev_reload @
            [Blocking (getGpgExecutable cfg) (list_only_args (fileName e)) [],
             LastDecrypt ''Could not decrypt'',
             Blocking (getGpgExecutable cfg) (decrypt_args (fileName e)) [],
             LastDecrypt (decrypt_text env cfg (fileName e))] @ after,
            gpgId2, returned)"
  using walk_reach [OF reach, of e post] visit_decrypt_failed [OF check differ failed] rest
  by simp

text \<open>
  In the small store: \<^verbatim>\<open>secrets/broken\<close> cannot be decrypted, and \<^verbatim>\<open>secrets/mail\<close> after it
  is visited all the same.
\<close>

theorem decrypt_failure_continues_witness:
  "actualKeys_of demo_env demo_cfg (fileName demo_broken) = [''AAAAAAAAAAAAAAAA''] \<and>
   decrypt_text demo_env demo_cfg (fileName demo_broken) = ''Could not decrypt'' \<and>
   walk demo_env demo_cfg ''.'' [] ([demo_web] @ demo_broken # [demo_mail]) =
     ([GetRecipientList ''/store/secrets/web.gpg'',
       Blocking ''gpg'' (list_only_args ''/store/secrets/web.gpg'') [],
       GetRecipientList ''/store/secrets/broken.gpg'',
       Blocking ''gpg'' (list_only_args ''/store/secrets/broken.gpg'') [],
       LastDecrypt ''Could not decrypt'',
       Blocking ''gpg'' (decrypt_args ''/store/secrets/broken.gpg'') [],
       LastDecrypt ''Could not decrypt'',
       GetRecipientList ''/store/secrets/mail.gpg'',
       Blocking ''gpg'' (list_only_args ''/store/secrets/mail.gpg'') []],
      [''BBBBBBBBBBBBBBBB''], False)"
proof -
  have reach: "walk demo_env demo_cfg ''.'' [] [demo_web] =
      ([GetRecipientList ''/store/secrets/web.gpg'',
        Blocking ''gpg'' (list_only_args ''/store/secrets/web.gpg'') []],
       [''BBBBBBBBBBBBBBBB''], False)"
    by (simp add: demo_env_def demo_cfg_def demo_db_def demo_web_def demo_mail_def
        demo_broken_def demo_orphan_def visit_def reload_gpgId_def reencrypt_def
        actualKeys_of_def list_only_text_def parse_keys_def split_str_def decrypt_text_def
        list_only_args_def decrypt_args_def with_newline_def right1_def edit_message_def
        strip_gpg_def Let_def)
  have check: "reload_gpgId demo_env ''.'' [''BBBBBBBBBBBBBBBB''] demo_broken =
      ([GetRecipientList ''/store/secrets/broken.gpg''], [''BBBBBBBBBBBBBBBB''])"
    by (simp add: demo_env_def demo_cfg_def demo_db_def demo_web_def demo_mail_def
        demo_broken_def demo_orphan_def visit_def reload_gpgId_def reencrypt_def
        actualKeys_of_def list_only_text_def parse_keys_def split_str_def decrypt_text_def
        list_only_args_def decrypt_args_def with_newline_def right1_def edit_message_def
        strip_gpg_def Let_def)
  have keys: "actualKeys_of demo_env demo_cfg (fileName demo_broken) = [''AAAAAAAAAAAAAAAA'']"
    by (simp add: demo_env_def demo_cfg_def demo_db_def demo_web_def demo_mail_def
        demo_broken_def demo_orphan_def visit_def reload_gpgId_def reencrypt_def
        actualKeys_of_def list_only_text_def parse_keys_def split_str_def decrypt_text_def
        list_only_args_def decrypt_args_def with_newline_def right1_def edit_message_def
        strip_gpg_def Let_def)
  have differ: "actualKeys_of demo_env demo_cfg (fileName demo_broken) \<noteq> [''BBBBBBBBBBBBBBBB'']"
    by (simp add: keys)
  have plain: "decrypt_text demo_env demo_cfg (fileName demo_broken) = ''Could not decrypt''"
    by (simp add: demo_env_def demo_cfg_def demo_db_def demo_web_def demo_mail_def
        demo_broken_def demo_orphan_def visit_def reload_gpgId_def reencrypt_def
        actualKeys_of_def list_only_text_def parse_keys_def split_str_def decrypt_text_def
        list_only_args_def decrypt_args_def with_newline_def right1_def edit_message_def
        strip_gpg_def Let_def)
  have failed: "decrypt_text demo_env demo_cfg (fileName demo_broken) = [] \<or>
      decrypt_text demo_env demo_cfg (fileName demo_broken) = ''Could not decrypt''"
    by (simp add: plain)
  have rest: "walk demo_env demo_cfg ''.'' [''BBBBBBBBBBBBBBBB''] [demo_mail] =
      ([GetRecipientList ''/store/secrets/mail.gpg'',
        Blocking ''gpg'' (list_only_args ''/store/secrets/mail.gpg'') []],
       [''BBBBBBBBBBBBBBBB''], False)"
    by (simp add: demo_env_def demo_cfg_def demo_db_def demo_web_def demo_mail_def
        demo_broken_def demo_orphan_def visit_def reload_gpgId_def reencrypt_def
        actualKeys_of_def list_only_text_def parse_keys_def split_str_def decrypt_text_def
        list_only_args_def decrypt_args_def with_newline_def right1_def edit_message_def
        strip_gpg_def Let_def)
  show ?thesis
    using decrypt_failure_continues [OF reach check differ failed rest] keys
    by (simp add: plain) (simp add: demo_cfg_def demo_broken_def)
qed

text \<open>
  C5. Let the walk reach the entry \<open>e\<close>, let its keys differ from the declared list, let the
  decryption give a text that is neither empty nor \<^verbatim>\<open>"Could not decrypt"\<close>, and let the
  declaration read again for the entry be empty. Then the walk ends at \<open>e\<close> with the
  critical message: the trace stops there whatever entries \<open>post\<close> follow, and it holds no
  encryption and no commit for \<open>e\<close>. The walk has returned (the third component), so
  \<open>reencryptPath\<close> adds neither the push nor the end signal.
\<close>

theorem missing_declaration_aborts:
  assumes reach: "walk env cfg currentDir gpgId0 pre = (before, gpgId1, False)"
      and check: "reload_gpgId env currentDir gpgId1 e = (ev_reload, gpgId)"
      and differ: "actualKeys_of env cfg (fileName e) \<noteq> gpgId"
      and decrypted: "decrypt_text env cfg (fileName e) \<noteq> []"
                     "decrypt_text env cfg (fileName e) \<noteq> ''Could not decrypt''"
      and missing: "getRecipientList env (fileName e) = []"
  shows "walk env cfg currentDir gpgId0 (pre @ e # post) =
           (before @ ev_reload @
            [Blocking (getGpgExecutable cfg) (list_only_args (fileName e)) [],
             LastDecrypt ''Could not decrypt'',
             Blocking (getGpgExecutable cfg) (decrypt_args (fileName e)) [],
             LastDecrypt (decrypt_text env cfg (fileName e)),
             LastDecrypt (with_newline (decrypt_text env cfg (fileName e))),
             GetRecipientList (fileName e),
             Critical ''Can not edit''
               ''Could not read encryption key to use, .gpg-id file missing or invalid.''],
            gpgId, True)"
  using walk_reach [OF reach, of e post] visit_decrypted [OF check differ decrypted] missing
  by (simp add: reencrypt_def)

text \<open>
  In the small store: no declaration governs \<^verbatim>\<open>orphan/x\<close>, and \<^verbatim>\<open>secrets/mail\<close> after it is
  not visited.
\<close>

theorem missing_declaration_aborts_witness:
  "actualKeys_of demo_env demo_cfg (fileName demo_orphan) = [''AAAAAAAAAAAAAAAA''] \<and>
   getRecipientList demo_env (fileName demo_orphan) = [] \<and>
   walk demo_env demo_cfg ''.'' [] ([demo_web] @ demo_orphan # [demo_mail]) =
     ([GetRecipientList ''/store/secrets/web.gpg'',
       Blocking ''gpg'' (list_only_args ''/store/secrets/web.gpg'') [],
       GetRecipientList ''/store/orphan/x.gpg'',
       Blocking ''gpg'' (list_only_args ''/store/orphan/x.gpg'') [],
       LastDecrypt ''Could not decrypt'',
       Blocking ''gpg'' (decrypt_args ''/store/orphan/x.gpg'') [],
       LastDecrypt ''hunter2'',
       LastDecrypt (''hunter2'' @ [newline]),
       GetRecipientList ''/store/orphan/x.gpg'',
       Critical ''Can not edit''
         ''Could not read encryption key to use, .gpg-id file missing or invalid.''],
      [], True)"
proof -
  have reach: "walk demo_env demo_cfg ''.'' [] [demo_web] =
      ([GetRecipientList ''/store/secrets/web.gpg'',
        Blocking ''gpg'' (list_only_args ''/store/secrets/web.gpg'') []],
       [''BBBBBBBBBBBBBBBB''], False)"
    by (simp add: demo_env_def demo_cfg_def demo_db_def demo_web_def demo_mail_def
        demo_broken_def demo_orphan_def visit_def reload_gpgId_def reencrypt_def
        actualKeys_of_def list_only_text_def parse_keys_def split_str_def decrypt_text_def
        list_only_args_def decrypt_args_def with_newline_def right1_def edit_message_def
        strip_gpg_def Let_def)
  have check: "reload_gpgId demo_env ''.'' [''BBBBBBBBBBBBBBBB''] demo_orphan =
      ([GetRecipientList ''/store/orphan/x.gpg''], [])"
    by (simp add: demo_env_def demo_cfg_def demo_db_def demo_web_def demo_mail_def
        demo_broken_def demo_orphan_def visit_def reload_gpgId_def reencrypt_def
        actualKeys_of_def list_only_text_def parse_keys_def split_str_def decrypt_text_def
        list_only_args_def decrypt_args_def with_newline_def right1_def edit_message_def
        strip_gpg_def Let_def)
  have keys: "actualKeys_of demo_env demo_cfg (fileName demo_orphan) = [''AAAAAAAAAAAAAAAA'']"
    by (simp add: demo_env_def demo_cfg_def demo_db_def demo_web_def demo_mail_def
        demo_broken_def demo_orphan_def visit_def reload_gpgId_def reencrypt_def
        actualKeys_of_def list_only_text_def parse_keys_def split_str_def decrypt_text_def
        list_only_args_def decrypt_args_def with_newline_def right1_def edit_message_def
        strip_gpg_def Let_def)
  have differ: "actualKeys_of demo_env demo_cfg (fileName demo_orphan) \<noteq> []"
    by (simp add: keys)
  have plain: "decrypt_text demo_env demo_cfg (fileName demo_orphan) = ''hunter2''"
    by (simp add: demo_env_def demo_cfg_def demo_db_def demo_web_def demo_mail_def
        demo_broken_def demo_orphan_def visit_def reload_gpgId_def reencrypt_def
        actualKeys_of_def list_only_text_def parse_keys_def split_str_def decrypt_text_def
        list_only_args_def decrypt_args_def with_newline_def right1_def edit_message_def
        strip_gpg_def Let_def)
  have decrypted: "decrypt_text demo_env demo_cfg (fileName demo_orphan) \<noteq> []"
    "decrypt_text demo_env demo_cfg (fileName demo_orphan) \<noteq> ''Could not decrypt''"
    by (simp_all add: plain)
  have missing: "getRecipientList demo_env (fileName demo_orphan) = []"
    by (simp add: demo_env_def demo_cfg_def demo_db_def demo_web_def demo_mail_def
        demo_broken_def demo_orphan_def visit_def reload_gpgId_def reencrypt_def
        actualKeys_of_def list_only_text_def parse_keys_def split_str_def decrypt_text_def
        list_only_args_def decrypt_args_def with_newline_def right1_def edit_message_def
        strip_gpg_def Let_def)
  show ?thesis
    using missing_declaration_aborts [OF reach check differ decrypted missing, of "[demo_mail]"]
      keys missing
    by (simp add: plain with_newline_def right1_def) (simp add: demo_cfg_def demo_orphan_def)
qed

subsection \<open>Reading the recipients of an entry\<close>

lemma collect_keys_filter:
  "collect_keys acc ls =
     acc @ map (\<lambda>line. split_str CHR '' '' line ! 4)
             (filter (\<lambda>line. length (split_str CHR '' '' line) > 4 \<and>
                             length (split_str CHR '' '' line ! 4) = 16) ls)"
  by (induction ls arbitrary: acc) (simp_all add: Let_def)

text \<open>
  C3, as amended. The text (standard output followed by standard error) is cut into lines
  at every line feed and each line into parts at every single space character, empty
  parts kept. A line contributes its part at index 4 exactly when it has more than four
  parts and that part has 16 characters, and contributes nothing otherwise; the parts
  collected, in the order of the lines, are then sorted.
\<close>

theorem parse_keys_fifth_part:
  "parse_keys txt =
     sort (map (\<lambda>line. split_str CHR '' '' line ! 4)
             (filter (\<lambda>line. length (split_str CHR '' '' line) > 4 \<and>
                             length (split_str CHR '' '' line ! 4) = 16)
                (split_str newline txt)))"
  by (simp add: parse_keys_def collect_keys_filter)

text \<open>
  C3 as it is written counts whitespace-separated fields. In \<open>tab_line\<close> a tab separates
  the first two words, so its whitespace-separated fields are \<^verbatim>\<open>gpg:\<close>, \<^verbatim>\<open>public\<close>,
  \<^verbatim>\<open>key\<close>, \<^verbatim>\<open>is\<close>, \<^verbatim>\<open>for\<close> and the identifier: the fifth is \<^verbatim>\<open>for\<close> and the line
  should contribute nothing. The code cuts at spaces only, finds the identifier at
  index 4 and collects it.
\<close>

theorem parse_keys_tab_line:
  "spec_fields tab_line = [''gpg:'', ''public'', ''key'', ''is'', ''for'', ''AAAAAAAAAAAAAAAA''] \<and>
   spec_line_keys tab_line = [] \<and>
   parse_keys tab_line = [''AAAAAAAAAAAAAAAA'']"
  by (simp add: parse_keys_def split_str_def tab_line_def spec_line_keys_def spec_fields_def
      is_whitespace_def)

subsection \<open>The directory check\<close>

text \<open>
  C6 fails on the code. \<^verbatim>\<open>secrets/web\<close> and \<^verbatim>\<open>secrets/mail\<close> lie in the same directory and
  are visited one after the other, and the declaration is read for each of them: the
  check compares the directory of the entry with \<^verbatim>\<open>currentDir\<close>, which is never assigned
  and stays \<^verbatim>\<open>"."\<close>.
\<close>

theorem same_directory_read_again:
  "dirPath demo_web = dirPath demo_mail \<and>
   walk demo_env demo_cfg ''.'' [] [demo_web, demo_mail] =
     ([GetRecipientList ''/store/secrets/web.gpg'',
       Blocking ''gpg'' (list_only_args ''/store/secrets/web.gpg'') [],
       GetRecipientList ''/store/secrets/mail.gpg'',
       Blocking ''gpg'' (list_only_args ''/store/secrets/mail.gpg'') []],
      [''BBBBBBBBBBBBBBBB''], False)"
  by (simp add: demo_env_def demo_cfg_def demo_db_def demo_web_def demo_mail_def
        demo_broken_def demo_orphan_def visit_def reload_gpgId_def reencrypt_def
        actualKeys_of_def list_only_text_def parse_keys_def split_str_def decrypt_text_def
        list_only_args_def decrypt_args_def with_newline_def right1_def edit_message_def
        strip_gpg_def Let_def)

subsection \<open>Blocking and asynchronous commands\<close>

lemma visit_async: "filter is_async (fst (visit env cfg cd g e)) = []"
  by (simp add: visit_def reload_gpgId_def reencrypt_def Let_def split: prod.splits)

lemma walk_async: "filter is_async (fst (walk env cfg cd g es)) = []"
proof (induction es arbitrary: g)
  case Nil
  then show ?case by simp
next
  case (Cons e es)
  obtain evs g' r where ve: "visit env cfg cd g e = (evs, g', r)"
    by (cases "visit env cfg cd g e")
  have v: "filter is_async evs = []"
    using visit_async [of env cfg cd g e] ve by simp
  show ?case
  proof (cases r)
    case True
    with ve v show ?thesis by simp
  next
    case False
    obtain evs' g'' r' where w: "walk env cfg cd g' es = (evs', g'', r')"
      by (cases "walk env cfg cd g' es")
    from Cons.IH [of g'] w have "filter is_async evs' = []" by simp
    with ve v w False show ?thesis by simp
  qed
qed

lemma commands_without_async:
  "filter is_async evs = [] \<Longrightarrow> filter is_command evs = filter is_blocking evs"
  by (induction evs) (auto simp: is_command_def split: if_splits)

text \<open>
  C7, as amended. The commands of \<open>reencryptPath\<close> are its blocking commands, in their
  order, followed by at most one asynchronous command: the push, dispatched through
  \<^verbatim>\<open>executeWrapper\<close> under the job id \<^verbatim>\<open>GIT_PUSH\<close> when push-after-operate is enabled and the
  walk did not return early. So the pull and everything issued for the entries is
  blocking, and the push is asynchronous and comes last.
\<close>

theorem only_push_is_async:
  "filter is_command (reencryptPath env cfg dir) =
     filter is_blocking (reencryptPath env cfg dir) @
     (if isAutoPush cfg \<and> \<not> snd (snd (walk env cfg ''.'' [] (gpgFiles env dir)))
      then [Async GIT_PUSH (getPassStore cfg) (getGitExecutable cfg) [''push''] []]
      else [])"
proof -
  obtain evs g r where w: "walk env cfg ''.'' [] (gpgFiles env dir) = (evs, g, r)"
    by (cases "walk env cfg ''.'' [] (gpgFiles env dir)")
  have a: "filter is_async evs = []"
    using walk_async [of env cfg "''.''" "[]" "gpgFiles env dir"] w by simp
  have c: "filter is_command evs = filter is_blocking evs"
    using a by (rule commands_without_async)
  have p: "filter is_command (GitPull_b cfg) = filter is_blocking (GitPull_b cfg)"
    by (simp add: GitPull_b_def is_command_def)
  show ?thesis
  proof (cases r)
    case True
    with w c p show ?thesis
      by (simp add: reencryptPath_def is_command_def)
  next
    case False
    with w c p show ?thesis
      by (simp add: reencryptPath_def GitPush_def executeWrapper_def is_command_def)
  qed
qed

text \<open>
  C7 as it is written has the push blocking. The walk over \<^verbatim>\<open>/store/secrets/\<close> with
  push-after-operate enabled dispatches it asynchronously.
\<close>

theorem push_is_async:
  "isAutoPush demo_cfg \<and>
   filter is_async (reencryptPath demo_env demo_cfg ''/store/secrets/'') =
     [Async GIT_PUSH ''/store/'' ''git'' [''push''] []]"
  by (simp add: reencryptPath_def GitPull_b_def GitPush_def executeWrapper_def demo_env_def demo_cfg_def demo_db_def demo_web_def demo_mail_def
        demo_broken_def demo_orphan_def visit_def reload_gpgId_def reencrypt_def
        actualKeys_of_def list_only_text_def parse_keys_def split_str_def decrypt_text_def
        list_only_args_def decrypt_args_def with_newline_def right1_def edit_message_def
        strip_gpg_def Let_def)

section \<open>Properties of Insert, Remove and Init\<close>

text \<open>
  C8. When no recipient is declared for the file of the new entry, \<open>Insert\<close> reads the
  declaration, emits the critical message that the \<^verbatim>\<open>.gpg-id\<close> file is missing or invalid,
  and does nothing else: no command is issued, neither encryption nor \<^verbatim>\<open>git add\<close> nor
  commit, and no file is written.
\<close>

theorem Insert_without_recipients:
  assumes "getRecipientList env (getPassStore cfg @ file @ ''.gpg'') = []"
  shows "Insert env cfg file newValue overwrite =
           [GetRecipientList (getPassStore cfg @ file @ ''.gpg''),
            Critical ''Can not edit''
              ''Could not read encryption key to use, .gpg-id file missing or invalid.'']"
  using assms by (simp add: Insert_def)

theorem Insert_without_recipients_witness:
  "getRecipientList demo_env (getPassStore demo_cfg @ ''orphan/x'' @ ''.gpg'') = [] \<and>
   Insert demo_env demo_cfg ''orphan/x'' ''secret'' False =
     [GetRecipientList ''/store/orphan/x.gpg'',
      Critical ''Can not edit''
        ''Could not read encryption key to use, .gpg-id file missing or invalid.'']"
proof -
  have h: "getRecipientList demo_env (getPassStore demo_cfg @ ''orphan/x'' @ ''.gpg'') = []"
    by (simp add: demo_env_def demo_cfg_def)
  show ?thesis
    using h Insert_without_recipients [OF h, of "''secret''" False] by (simp add: demo_cfg_def)
qed

text \<open>
  C9 fails on the code for the deletion. With git in use, removing the entry \<^verbatim>\<open>notes\<close> of
  the store \<^verbatim>\<open>/store/\<close> commits with the message
  \<^verbatim>\<open>Remove for /store/notes.gpg using QtPass.\<close>: the path is the full path of the file, with
  the store in front and \<^verbatim>\<open>.gpg\<close> at the end, where \<open>Insert\<close> and the walk put the relative
  path without \<^verbatim>\<open>.gpg\<close>.
\<close>

theorem Remove_message_full_path:
  "isUseGit demo_cfg \<and>
   Remove demo_env demo_cfg ''notes'' False =
     [Async GIT_RM ''/store/'' ''git'' [''rm'', ''-f'', ''/store/notes.gpg''] [],
      Async GIT_COMMIT ''/store/'' ''git''
        [''commit'', ''-m'', ''Remove for /store/notes.gpg using QtPass.'', ''--'',
         ''/store/notes.gpg''] []]"
  by (simp add: Remove_def demo_cfg_def executeWrapper_def GitCommit_def Let_def)

lemma write_users_eq:
  "write_users users (written, sel) =
     (written @ concat (map (\<lambda>u. key_id u @ [newline]) (filter enabled users)),
      sel \<or> (\<exists>u \<in> set users. enabled u \<and> have_secret u))"
  by (induction users arbitrary: written sel) auto

text \<open>
  C10, as amended. When the file \<^verbatim>\<open>.gpg-id\<close> of the path can be opened for writing and no
  enabled user has a secret key, \<open>Init\<close> writes the file, holding the key of every enabled
  user, each followed by a line feed and in the order of the list, then emits the critical
  message about the secret key, and does nothing else: no \<^verbatim>\<open>git add\<close>, no commit, no
  walk, and nothing that removes or restores the file.
\<close>

theorem Init_without_secret_key:
  assumes "openWriteOnly env (path @ ''.gpg-id'')"
      and "\<forall>u \<in> set users. enabled u \<longrightarrow> \<not> have_secret u"
  shows "Init env cfg path users =
           [FileWrite (path @ ''.gpg-id'')
              (concat (map (\<lambda>u. key_id u @ [newline]) (filter enabled users))),
            Critical ''Check selected users!''
              (''None of the selected keys have a secret key available.'' @ [newline] @
               ''You will not be able to decrypt any newly added passwords!'')]"
  using assms by (auto simp add: Init_def write_users_eq)

theorem Init_without_secret_key_witness:
  "openWriteOnly demo_env (''/store/'' @ ''.gpg-id'') \<and>
   Init demo_env demo_cfg ''/store/''
     [\<lparr>key_id = ''BBBBBBBBBBBBBBBB'', enabled = True, have_secret = False\<rparr>,
      \<lparr>key_id = ''AAAAAAAAAAAAAAAA'', enabled = False, have_secret = True\<rparr>,
      \<lparr>key_id = ''CCCCCCCCCCCCCCCC'', enabled = True, have_secret = False\<rparr>] =
   [FileWrite ''/store/.gpg-id''
      (''BBBBBBBBBBBBBBBB'' @ [newline] @ ''CCCCCCCCCCCCCCCC'' @ [newline]),
    Critical ''Check selected users!''
      (''None of the selected keys have a secret key available.'' @ [newline] @
       ''You will not be able to decrypt any newly added passwords!'')]"
proof -
  have h: "openWriteOnly demo_env (''/store/'' @ ''.gpg-id'')"
    by (simp add: demo_env_def)
  have n: "\<forall>u \<in> set [\<lparr>key_id = ''BBBBBBBBBBBBBBBB'', enabled = True, have_secret = False\<rparr>,
      \<lparr>key_id = ''AAAAAAAAAAAAAAAA'', enabled = False, have_secret = True\<rparr>,
      \<lparr>key_id = ''CCCCCCCCCCCCCCCC'', enabled = True, have_secret = False\<rparr>].
        enabled u \<longrightarrow> \<not> have_secret u"
    by simp
  show ?thesis
    using h Init_without_secret_key [OF h n, of demo_cfg] by simp
qed

text \<open>When the file cannot be opened for writing, \<open>Init\<close> only reports that.\<close>

lemma Init_cannot_open:
  assumes "\<not> openWriteOnly env (path @ ''.gpg-id'')"
  shows "Init env cfg path users =
           [Critical ''Cannot update'' ''Failed to open .gpg-id for writing.'']"
  using assms by (simp add: Init_def)

text \<open>
  C10 as it is written has the file written first in every case. When the file cannot be
  opened for writing, \<open>Init\<close> writes nothing and reports that, not the missing secret key.
\<close>

theorem Init_unwritable:
  "Init demo_env demo_cfg ''/readonly/''
     [\<lparr>key_id = ''BBBBBBBBBBBBBBBB'', enabled = True, have_secret = False\<rparr>] =
   [Critical ''Cannot update'' ''Failed to open .gpg-id for writing.'']"
  by (simp add: Init_def demo_env_def)

end
